theory Spec2Isabelle
  imports Complex_Main
begin

section \<open>Errors and tensors\<close>

text \<open>
  The exceptions the code and the libraries it calls can raise.  \<open>ValueError\<close> is raised by
  argument validation (numpy, scikit-learn, the torch data loader and optimiser),
  \<open>RuntimeError\<close> by torch on a shape mismatch or a negative dimension, \<open>IndexError\<close>
  by numpy on an index past the end of an array.
\<close>

datatype error = ValueError | RuntimeError | IndexError

definition e_bind :: "error + 'a \<Rightarrow> ('a \<Rightarrow> error + 'b) \<Rightarrow> error + 'b" where
  "e_bind m f = (case m of Inl e \<Rightarrow> Inl e | Inr v \<Rightarrow> f v)"

fun e_mapM :: "('a \<Rightarrow> error + 'b) \<Rightarrow> 'a list \<Rightarrow> error + 'b list" where
  "e_mapM f [] = Inr []"
| "e_mapM f (x # xs) =
     (case f x of Inl e \<Rightarrow> Inl e
      | Inr y \<Rightarrow> (case e_mapM f xs of Inl e \<Rightarrow> Inl e | Inr ys \<Rightarrow> Inr (y # ys)))"

text \<open>
  A two-dimensional tensor is its shape and its entries.  Entries are real numbers: the
  rounding of 32-bit floats is not modelled.  Only the entries inside the shape matter.
\<close>

record tensor =
  nrows :: nat
  ncols :: nat
  el :: "nat \<Rightarrow> nat \<Rightarrow> real"

definition zeros :: "nat \<Rightarrow> nat \<Rightarrow> tensor" where
  "zeros r c = \<lparr>nrows = r, ncols = c, el = (\<lambda>i j. 0)\<rparr>"

text \<open>
  Broadcasting of an elementwise binary operation: two dimensions are compatible when they
  are equal or one of them is 1; an operand of extent 1 is repeated along that dimension.
\<close>

definition bdim :: "nat \<Rightarrow> nat \<Rightarrow> nat option" where
  "bdim a b = (if a = b then Some a else if a = 1 then Some b
               else if b = 1 then Some a else None)"

definition bidx :: "nat \<Rightarrow> nat \<Rightarrow> nat" where
  "bidx n i = (if n = 1 then 0 else i)"

text \<open>
  Python's slice bound: a negative bound counts from the end, and a bound outside the
  sequence is cut off at its ends.
\<close>

definition slice_pos :: "int \<Rightarrow> nat \<Rightarrow> nat" where
  "slice_pos k n = (if k < 0 then nat (max 0 (int n + k)) else min (nat k) n)"

text \<open>\<open>t[:, :k]\<close> and \<open>t[:, k:]\<close>.\<close>

definition cols_to :: "tensor \<Rightarrow> int \<Rightarrow> tensor" where
  "cols_to t k = \<lparr>nrows = nrows t, ncols = slice_pos k (ncols t), el = el t\<rparr>"

definition cols_from :: "tensor \<Rightarrow> int \<Rightarrow> tensor" where
  "cols_from t k = \<lparr>nrows = nrows t, ncols = ncols t - slice_pos k (ncols t),
                     el = (\<lambda>i j. el t i (j + slice_pos k (ncols t)))\<rparr>"

text \<open>
  \<open>a[idx]\<close> for an array of rows and a list of row indices; an index past the last row
  raises IndexError.
\<close>

definition take_rows :: "tensor \<Rightarrow> nat list \<Rightarrow> error + tensor" where
  "take_rows a idx =
     (if \<exists>i \<in> set idx. nrows a \<le> i then Inl IndexError
      else Inr \<lparr>nrows = length idx, ncols = ncols a, el = (\<lambda>i j. el a (idx ! i) j)\<rparr>)"

text \<open>
  In-place addition \<open>p += y\<close>: \<open>y\<close> is broadcast to the shape of \<open>p\<close>, which does not
  change.
\<close>

definition iadd :: "tensor \<Rightarrow> tensor \<Rightarrow> error + tensor" where
  "iadd p y =
     (if (nrows y = nrows p \<or> nrows y = 1) \<and> (ncols y = ncols p \<or> ncols y = 1)
      then Inr \<lparr>nrows = nrows p, ncols = ncols p,
                 el = (\<lambda>i j. el p i j + el y (bidx (nrows y) i) (bidx (ncols y) j))\<rparr>
      else Inl RuntimeError)"

text \<open>An elementwise binary operation with broadcasting.\<close>

definition bop :: "(real \<Rightarrow> real \<Rightarrow> real) \<Rightarrow> tensor \<Rightarrow> tensor \<Rightarrow> error + tensor" where
  "bop f a b =
     (case bdim (nrows a) (nrows b) of
        None \<Rightarrow> Inl RuntimeError
      | Some r \<Rightarrow>
         (case bdim (ncols a) (ncols b) of
            None \<Rightarrow> Inl RuntimeError
          | Some c \<Rightarrow>
              Inr \<lparr>nrows = r, ncols = c,
                   el = (\<lambda>i j. f (el a (bidx (nrows a) i) (bidx (ncols a) j))
                                  (el b (bidx (nrows b) i) (bidx (ncols b) j)))\<rparr>))"

definition tmap :: "(real \<Rightarrow> real) \<Rightarrow> tensor \<Rightarrow> tensor" where
  "tmap f a = \<lparr>nrows = nrows a, ncols = ncols a, el = (\<lambda>i j. f (el a i j))\<rparr>"

definition t_transpose :: "tensor \<Rightarrow> tensor" where
  "t_transpose a = \<lparr>nrows = ncols a, ncols = nrows a, el = (\<lambda>i j. el a j i)\<rparr>"

definition mm :: "tensor \<Rightarrow> tensor \<Rightarrow> error + tensor" where
  "mm a b =
     (if ncols a \<noteq> nrows b then Inl RuntimeError
      else Inr \<lparr>nrows = nrows a, ncols = ncols b,
                el = (\<lambda>i j. \<Sum>k<ncols a. el a i k * el b k j)\<rparr>)"

definition trace :: "tensor \<Rightarrow> real" where
  "trace a = (\<Sum>i<min (nrows a) (ncols a). el a i i)"

definition t_sum :: "tensor \<Rightarrow> real" where
  "t_sum a = (\<Sum>i<nrows a. \<Sum>j<ncols a. el a i j)"

section \<open>Configuration\<close>

text \<open>
  The fields of \<open>cfg\<close> the model reads: \<open>cfg.model.ensemble\<close>, \<open>cfg.model.traj\<close>,
  \<open>cfg.model.prob\<close>, \<open>cfg.model.training.{E, hid_width, hid_depth}\<close>,
  \<open>cfg.model.optimizer.{lr, batch, split, epochs}\<close> and
  \<open>cfg.env.{state_size, action_size, param_size}\<close>.
\<close>

record cfg =
  model_ensemble :: bool
  model_traj :: bool
  model_prob :: bool
  training_E :: int
  training_hid_width :: int
  training_hid_depth :: int
  optimizer_lr :: real
  optimizer_batch :: int
  optimizer_split :: real
  optimizer_epochs :: int
  env_state_size :: int
  env_action_size :: int
  env_param_size :: int

section \<open>The probabilistic loss: construction\<close>

record ProbLoss =
  size :: int
  max_logvar :: tensor
  min_logvar :: tensor

text \<open>\<open>np.ones([1, size])\<close> raises ValueError on a negative \<open>size\<close>.\<close>

definition ProbLoss_init :: "int \<Rightarrow> error + ProbLoss" where
  "ProbLoss_init sz =
     (if sz < 0 then Inl ValueError
      else Inr \<lparr>size = sz,
                max_logvar = \<lparr>nrows = 1, ncols = nat sz, el = (\<lambda>i j. 1 * 1)\<rparr>,
                min_logvar = \<lparr>nrows = 1, ncols = nat sz, el = (\<lambda>i j. - 1 * 1)\<rparr>\<rparr>)"

datatype loss = MSELoss | ProbLossFn ProbLoss

section \<open>The network\<close>

text \<open>
  A layer of \<open>nn.Sequential\<close>: \<open>Linear in_features out_features weight bias\<close> with
  \<open>weight\<close> of shape \<open>(out_features, in_features)\<close>, or the activation.  The names of
  the layers in the ordered dictionary have no effect on the computation and are left out.
\<close>

datatype layer = Linear nat nat "nat \<Rightarrow> nat \<Rightarrow> real" "nat \<Rightarrow> real" | ReLU

type_synonym params = "(nat \<Rightarrow> nat \<Rightarrow> real) \<times> (nat \<Rightarrow> real)"

record Net =
  onGPU :: bool
  net_loss_fn :: loss
  net_n_in :: int
  net_n_out :: int
  hidden_w :: int
  features :: "layer list"

text \<open>
  \<open>Net.__init__\<close>.  \<open>nn.Linear\<close> draws its initial weights at random; here they are the
  argument \<open>w\<close>, the parameters of the \<open>k\<close>-th linear layer being \<open>w k\<close>, so that a
  statement for all \<open>w\<close> covers the weights after any amount of training as well.
  \<open>nn.Linear\<close> raises RuntimeError on a negative dimension; the first and the last
  layer meet every dimension.
\<close>

definition Net_init :: "int \<Rightarrow> int \<Rightarrow> cfg \<Rightarrow> loss \<Rightarrow> (nat \<Rightarrow> params) \<Rightarrow> error + Net" where
  "Net_init n_i n_o c lf w =
     (let hw = training_hid_width c; depth = nat (training_hid_depth c) in
      if n_i < 0 \<or> hw < 0 \<or> n_o < 0 then Inl RuntimeError
      else Inr \<lparr>onGPU = False, net_loss_fn = lf, net_n_in = n_i, net_n_out = n_o,
                hidden_w = hw,
                features =
                  [Linear (nat n_i) (nat hw) (fst (w 0)) (snd (w 0)), ReLU]
                  @ concat (map (\<lambda>d. [Linear (nat hw) (nat hw) (fst (w (Suc d))) (snd (w (Suc d))),
                                       ReLU]) [0..<depth])
                  @ [Linear (nat hw) (nat n_o) (fst (w (Suc depth))) (snd (w (Suc depth)))]\<rparr>)"

text \<open>One layer applied to a batch: \<open>x W\<^sup>T + b\<close> for a linear layer, \<open>max 0\<close> for the activation.\<close>

fun layer_forward :: "layer \<Rightarrow> tensor \<Rightarrow> error + tensor" where
  "layer_forward (Linear n_i n_o wt b) x =
     (if ncols x \<noteq> n_i then Inl RuntimeError
      else Inr \<lparr>nrows = nrows x, ncols = n_o,
                el = (\<lambda>i j. (\<Sum>k<n_i. el x i k * wt j k) + b j)\<rparr>)"
| "layer_forward ReLU x = Inr (tmap (max 0) x)"

fun sequential :: "layer list \<Rightarrow> tensor \<Rightarrow> error + tensor" where
  "sequential [] x = Inr x"
| "sequential (l # ls) x =
     (case layer_forward l x of Inl e \<Rightarrow> Inl e | Inr y \<Rightarrow> sequential ls y)"

text \<open>
  \<open>Net.forward\<close>: the conversion from a numpy array and \<open>x.float()\<close> are the identity on
  real entries.
\<close>

definition forward :: "Net \<Rightarrow> tensor \<Rightarrow> error + tensor" where
  "forward net x = sequential (features net) x"

section \<open>The dynamics model: construction\<close>

record DynamicsModel =
  ens :: bool
  traj :: bool
  prob :: bool
  E :: int
  n_in :: int
  n_out :: int
  loss_fn :: loss
  nets :: "Net list"
  acctrain :: "real option list list option"
  acctest :: "real option list list option"

text \<open>
  \<open>DynamicsModel.__init__\<close>; \<open>w i\<close> gives the initial parameters of member \<open>i\<close>.  The
  attributes \<open>acctrain\<close> and \<open>acctest\<close> do not exist before the first call of \<open>train\<close>.
\<close>

definition DynamicsModel_init :: "cfg \<Rightarrow> (nat \<Rightarrow> nat \<Rightarrow> params) \<Rightarrow> error + DynamicsModel" where
  "DynamicsModel_init c w =
     (let e = (if model_ensemble c then training_E c else 1);
          ni = (if model_traj c then env_state_size c + env_param_size c + 1
                else env_state_size c + env_action_size c);
          no = env_state_size c
      in e_bind (if model_prob c
                 then e_bind (ProbLoss_init no) (\<lambda>pl. Inr (ProbLossFn pl, no * 2))
                 else Inr (MSELoss, no))
           (\<lambda>(lf, no').
              e_bind (e_mapM (\<lambda>i. Net_init ni no' c lf (w i)) [0..<nat e])
                (\<lambda>ns. Inr \<lparr>ens = model_ensemble c, traj = model_traj c, prob = model_prob c,
                            E = e, n_in = ni, n_out = no', loss_fn = lf, nets = ns,
                            acctrain = None, acctest = None\<rparr>)))"

section \<open>The dynamics model: prediction\<close>

text \<open>
  The loop of \<open>predict\<close>: each member's output, divided by the number of members, is
  added in place to \<open>prediction\<close>.
\<close>

fun predict_loop :: "Net list \<Rightarrow> nat \<Rightarrow> tensor \<Rightarrow> tensor \<Rightarrow> error + tensor" where
  "predict_loop [] len x prediction = Inr prediction"
| "predict_loop (n # ns) len x prediction =
     e_bind (forward n x)
       (\<lambda>y. e_bind (iadd prediction (tmap (\<lambda>v. v / real len) y)) (predict_loop ns len x))"

text \<open>
  \<open>DynamicsModel.predict\<close>, returning its result together with the model after the call.
  \<open>torch.zeros\<close> raises RuntimeError on a negative dimension.  The slice width 21 is the
  literal of the source.
\<close>

definition predict :: "DynamicsModel \<Rightarrow> tensor \<Rightarrow> (error + tensor) \<times> DynamicsModel" where
  "predict m x =
     (if n_out m < 0 then Inl RuntimeError
      else e_bind (predict_loop (nets m) (length (nets m)) x (zeros (nrows x) (nat (n_out m))))
             (\<lambda>prediction. if traj m then Inr (cols_to prediction 21)
                             else bop (+) (cols_to x 21) (cols_to prediction 21)),
      m)"

section \<open>The probabilistic loss\<close>

text \<open>
  \<open>softplus_raw\<close>: the in-place multiplication and division by \<open>B = 1\<close> act on temporaries.
\<close>

definition softplus_raw :: "tensor \<Rightarrow> tensor" where
  "softplus_raw input = (let B = 1 in tmap (\<lambda>v. ln (1 + exp (v * B)) / B) input)"

text \<open>
  The first part of \<open>ProbLoss.forward\<close>: the log-variance columns of the network output
  after the two caps.
\<close>

definition capped_logvar :: "ProbLoss \<Rightarrow> tensor \<Rightarrow> error + tensor" where
  "capped_logvar pl inputs =
     (let logvar = cols_from inputs (size pl) in
      e_bind (bop (-) (max_logvar pl) logvar)
        (\<lambda>d1. e_bind (bop (-) (max_logvar pl) (softplus_raw d1))
           (\<lambda>logvar1. e_bind (bop (-) logvar1 (min_logvar pl))
              (\<lambda>d2. bop (+) (min_logvar pl) (softplus_raw d2)))))"

text \<open>\<open>ProbLoss.forward\<close>.\<close>

definition ProbLoss_forward :: "ProbLoss \<Rightarrow> tensor \<Rightarrow> tensor \<Rightarrow> error + real" where
  "ProbLoss_forward pl inputs targets =
     (let mean = cols_to inputs (size pl) in
      e_bind (capped_logvar pl inputs)
        (\<lambda>logvar.
           let var = tmap exp logvar in
           e_bind (bop (-) mean targets)
             (\<lambda>diff. e_bind (bop (/) diff var)
                (\<lambda>mid. let lg = t_sum (tmap ln var) in
                        e_bind (mm diff (t_transpose mid)) (\<lambda>p. Inr (trace p + lg))))))"

text \<open>
  A loss value or an accumulated error is a number or NaN; \<open>None\<close> stands for NaN, which
  every sum and quotient hands on.
\<close>

definition nan_add :: "real option \<Rightarrow> real option \<Rightarrow> real option" where
  "nan_add a b = (case a of None \<Rightarrow> None | Some x \<Rightarrow> map_option ((+) x) b)"

definition nan_div :: "real option \<Rightarrow> real \<Rightarrow> real option" where
  "nan_div a d = map_option (\<lambda>x. x / d) a"

text \<open>
  \<open>nn.MSELoss()\<close>: the mean of the squared differences, which is NaN on a tensor without
  entries.
\<close>

definition MSELoss_forward :: "tensor \<Rightarrow> tensor \<Rightarrow> error + real option" where
  "MSELoss_forward inputs targets =
     e_bind (bop (-) inputs targets)
       (\<lambda>d. Inr (if nrows d * ncols d = 0 then None
                 else Some (t_sum (tmap (\<lambda>v. v * v) d) / real (nrows d * ncols d))))"

fun loss_call :: "loss \<Rightarrow> tensor \<Rightarrow> tensor \<Rightarrow> error + real option" where
  "loss_call MSELoss inputs targets = MSELoss_forward inputs targets"
| "loss_call (ProbLossFn pl) inputs targets =
     e_bind (ProbLoss_forward pl inputs targets) (\<lambda>v. Inr (Some v))"

section \<open>Training one network\<close>

text \<open>
  What the model leaves open: the Adam optimiser (its state \<open>'o\<close>, how it is created from
  the parameters and the learning rate, and the parameters after \<open>zero_grad\<close>,
  \<open>backward\<close> and \<open>step\<close> on one batch), and the random permutation a shuffling data
  loader draws each time it is iterated (\<open>shuffled k\<close> is the \<open>k\<close>-th draw).
\<close>

record 'o backend =
  new_optimizer :: "layer list \<Rightarrow> real \<Rightarrow> 'o"
  optimizer_step :: "'o \<Rightarrow> Net \<Rightarrow> tensor \<Rightarrow> tensor \<Rightarrow> 'o \<times> layer list"
  shuffled :: "nat \<Rightarrow> nat list \<Rightarrow> nat list"

text \<open>\<open>int(r)\<close> of a float: truncation towards zero.\<close>

definition py_int :: "real \<Rightarrow> int" where
  "py_int r = (if 0 \<le> r then \<lfloor>r\<rfloor> else \<lceil>r\<rceil>)"

text \<open>\<open>xs[:k]\<close> and \<open>xs[k:]\<close> on a list.\<close>

definition list_to :: "'a list \<Rightarrow> int \<Rightarrow> 'a list" where
  "list_to xs k = take (slice_pos k (length xs)) xs"

definition list_from :: "'a list \<Rightarrow> int \<Rightarrow> 'a list" where
  "list_from xs k = drop (slice_pos k (length xs)) xs"

text \<open>
  \<open>DataLoader(data, batch_size=bs, shuffle=True)\<close>.  With \<open>shuffle=True\<close> the loader builds
  a \<open>RandomSampler\<close>, whose constructor raises ValueError when the data has no element
  (``num_samples should be a positive integer value''); the batch sampler raises ValueError
  when the batch size is not positive.  A loader is its data with the batch size.
\<close>

definition DataLoader :: "'a list \<Rightarrow> int \<Rightarrow> error + ('a list \<times> nat)" where
  "DataLoader ds bs =
     (if ds = [] then Inl ValueError
      else if bs \<le> 0 then Inl ValueError
      else Inr (ds, nat bs))"

text \<open>\<open>len(loader)\<close>, the number of batches, and the batches of one pass over a loader.\<close>

definition loader_len :: "'a list \<times> nat \<Rightarrow> nat" where
  "loader_len l = (length (fst l) + snd l - 1) div snd l"

definition batches :: "(nat list \<Rightarrow> nat list) \<Rightarrow> nat list \<times> nat \<Rightarrow> nat list list" where
  "batches sh l =
     map (\<lambda>k. take (snd l) (drop (k * snd l) (sh (fst l)))) [0..<loader_len l]"

text \<open>
  The samples of the zipped dataset are the row numbers of the two arrays; a batch is
  collated into the tensors of its input rows and of its target rows.
\<close>

definition collate :: "tensor \<times> tensor \<Rightarrow> nat list \<Rightarrow> tensor \<times> tensor" where
  "collate dataset b =
     (\<lparr>nrows = length b, ncols = ncols (fst dataset), el = (\<lambda>i j. el (fst dataset) (b ! i) j)\<rparr>,
      \<lparr>nrows = length b, ncols = ncols (snd dataset), el = (\<lambda>i j. el (snd dataset) (b ! i) j)\<rparr>)"

text \<open>The training pass of one epoch: the state is the optimiser, the net and \<open>train_error\<close>.\<close>

fun train_pass ::
  "'o backend \<Rightarrow> tensor \<times> tensor \<Rightarrow> real \<Rightarrow> nat list list
     \<Rightarrow> 'o \<times> Net \<times> real option \<Rightarrow> error + ('o \<times> Net \<times> real option)" where
  "train_pass be dataset denom [] s = Inr s"
| "train_pass be dataset denom (b # bs) (opt, net, train_error) =
     (let (inputs, targets) = collate dataset b in
      e_bind (forward net inputs)
        (\<lambda>outputs. e_bind (loss_call (net_loss_fn net) outputs targets)
           (\<lambda>loss. let (opt', fs) = optimizer_step be opt net inputs targets in
                    train_pass be dataset denom bs
                      (opt', net\<lparr>features := fs\<rparr>,
                       nan_add train_error (nan_div loss denom)))))"

text \<open>The test pass of one epoch: \<open>test_error\<close> starts from \<open>torch.zeros(1)\<close>.\<close>

fun test_pass ::
  "tensor \<times> tensor \<Rightarrow> real \<Rightarrow> nat list list \<Rightarrow> Net \<Rightarrow> real option
     \<Rightarrow> error + real option" where
  "test_pass dataset denom [] net test_error = Inr test_error"
| "test_pass dataset denom (b # bs) net test_error =
     (let (inputs, targets) = collate dataset b in
      e_bind (forward net inputs)
        (\<lambda>outputs. e_bind (loss_call (net_loss_fn net) outputs targets)
           (\<lambda>loss. test_pass dataset denom bs net
                      (nan_add test_error (nan_div loss denom)))))"

text \<open>
  The optimisation loop over the epochs; the state is the number of shuffles drawn so far,
  the optimiser, the net and the two lists of errors.
\<close>

fun epoch_loop ::
  "'o backend \<Rightarrow> tensor \<times> tensor \<Rightarrow> int \<Rightarrow> nat list \<times> nat \<Rightarrow> nat list \<times> nat \<Rightarrow> nat list
     \<Rightarrow> nat \<times> 'o \<times> Net \<times> real option list \<times> real option list
     \<Rightarrow> error + (nat \<times> 'o \<times> Net \<times> real option list \<times> real option list)" where
  "epoch_loop be dataset bs trainLoader testLoader [] s = Inr s"
| "epoch_loop be dataset bs trainLoader testLoader (epoch # es)
       (rng, opt, net, train_errors, test_errors) =
     e_bind (train_pass be dataset (real (loader_len trainLoader) * real_of_int bs)
               (batches (shuffled be rng) trainLoader) (opt, net, Some 0))
       (\<lambda>(opt', net', train_error).
          e_bind (test_pass dataset (real (loader_len testLoader) * real_of_int bs)
                    (batches (shuffled be (Suc rng)) testLoader) net' (Some 0))
            (\<lambda>test_error.
               epoch_loop be dataset bs trainLoader testLoader es
                 (Suc (Suc rng), opt', net', train_errors @ [train_error],
                  test_errors @ [test_error])))"

text \<open>
  The product \<open>split * len(dataset)\<close> is a product of two doubles: the exact product
  rounded to 53 significant bits, to the nearest and to the even neighbour on a tie
  (\<open>rne\<close> rounds a real number to an integer in that way).  The exponent range of
  doubles is not modelled.  The length is converted to a double first, which is exact below
  \<open>2 ^ 53\<close>; a list of \<open>2 ^ 53\<close> or more samples does not fit into memory, and for
  such a length the exact product stands in.
\<close>

definition rne :: "real \<Rightarrow> int" where
  "rne y = (let f = \<lfloor>y\<rfloor>; d = y - of_int f in
            if d < 1 / 2 then f else if 1 / 2 < d then f + 1
            else if even f then f else f + 1)"

definition round_double :: "real \<Rightarrow> real" where
  "round_double x =
     (if x = 0 then 0
      else let e = \<lfloor>log 2 \<bar>x\<bar>\<rfloor>
           in sgn x * (of_int (rne (\<bar>x\<bar> * 2 powr real_of_int (52 - e))) *
                       2 powr real_of_int (e - 52)))"

definition float_product :: "real \<Rightarrow> nat \<Rightarrow> real" where
  "float_product split n =
     (if n < 2 ^ 53 then round_double (split * real n) else split * real n)"

text \<open>
  \<open>Net.optimize\<close>.  \<open>torch.optim.Adam\<close> raises ValueError on a negative learning rate.  The
  result is the shuffle counter and the net after training, with the two lists of errors.
\<close>

definition optimize ::
  "'o backend \<Rightarrow> nat \<Rightarrow> Net \<Rightarrow> tensor \<times> tensor \<Rightarrow> cfg
     \<Rightarrow> error + (nat \<times> Net \<times> real option list \<times> real option list)" where
  "optimize be rng net dataset c =
     (let lr = optimizer_lr c; bs = optimizer_batch c;
          split = optimizer_split c; epochs = optimizer_epochs c
      in if lr < 0 then Inl ValueError
         else
           let optimizer = new_optimizer be (features net) lr;
               ds = [0..<min (nrows (fst dataset)) (nrows (snd dataset))];
               k = py_int (float_product split (length ds))
           in e_bind (DataLoader (list_to ds k) bs)
                (\<lambda>trainLoader.
                   e_bind (DataLoader (list_from ds k) bs)
                     (\<lambda>testLoader.
                        e_bind (epoch_loop be dataset bs trainLoader testLoader
                                  [0..<nat epochs] (rng, optimizer, net, [], []))
                          (\<lambda>(rng', opt', net', train_errors, test_errors).
                             Inr (rng', net', train_errors, test_errors)))))"

section \<open>Training the ensemble\<close>

text \<open>
  \<open>KFold(n_splits=E)\<close> of scikit-learn, with its default \<open>shuffle=False\<close>: the constructor
  raises ValueError unless there are at least two splits.
\<close>

definition KFold :: "int \<Rightarrow> error + nat" where
  "KFold n_splits = (if n_splits \<le> 1 then Inl ValueError else Inr (nat n_splits))"

text \<open>
  \<open>kf.split\<close> on \<open>n_samples\<close> samples raises ValueError when there are more splits than
  samples.  Otherwise the first \<open>n_samples mod n_splits\<close> folds have
  \<open>n_samples div n_splits + 1\<close> samples and the others \<open>n_samples div n_splits\<close>; the
  test indices of the folds are consecutive blocks of \<open>0, ..., n_samples - 1\<close>, and the
  training indices of a fold are the indices outside its block, in order.
\<close>

definition fold_sizes :: "nat \<Rightarrow> nat \<Rightarrow> nat list" where
  "fold_sizes n_splits n_samples =
     map (\<lambda>i. n_samples div n_splits + (if i < n_samples mod n_splits then 1 else 0))
       [0..<n_splits]"

fun iter_test_indices :: "nat list \<Rightarrow> nat \<Rightarrow> nat list list" where
  "iter_test_indices [] current = []"
| "iter_test_indices (fold_size # rest) current =
     [current..<current + fold_size] # iter_test_indices rest (current + fold_size)"

definition kf_split :: "nat \<Rightarrow> nat \<Rightarrow> error + (nat list \<times> nat list) list" where
  "kf_split n_splits n_samples =
     (if n_splits > n_samples then Inl ValueError
      else Inr (map (\<lambda>test_idx. (filter (\<lambda>j. j \<notin> set test_idx) [0..<n_samples], test_idx))
                  (iter_test_indices (fold_sizes n_splits n_samples) 0)))"

text \<open>\<open>sub_data = (dataset[0][train_idx], dataset[1][train_idx])\<close>.\<close>

definition sub_data :: "tensor \<times> tensor \<Rightarrow> nat list \<Rightarrow> error + (tensor \<times> tensor)" where
  "sub_data dataset train_idx =
     e_bind (take_rows (fst dataset) train_idx)
       (\<lambda>a. e_bind (take_rows (snd dataset) train_idx) (\<lambda>b. Inr (a, b)))"

text \<open>The loop of \<open>train\<close> over the members and the folds.\<close>

fun train_loop ::
  "'o backend \<Rightarrow> tensor \<times> tensor \<Rightarrow> cfg \<Rightarrow> (Net \<times> nat list \<times> nat list) list
     \<Rightarrow> nat \<times> Net list \<times> real option list list \<times> real option list list
     \<Rightarrow> error + (nat \<times> Net list \<times> real option list list \<times> real option list list)" where
  "train_loop be dataset c [] s = Inr s"
| "train_loop be dataset c ((n, train_idx, test_idx) # rest)
       (rng, done, acctrain_l, acctest_l) =
     e_bind (sub_data dataset train_idx)
       (\<lambda>sd. e_bind (optimize be rng n sd c)
          (\<lambda>(rng', n', train_e, test_e).
             train_loop be dataset c rest
               (rng', done @ [n'], acctrain_l @ [train_e], acctest_l @ [test_e])))"

text \<open>
  \<open>DynamicsModel.train\<close>: the model after training with the two lists it returns.  The
  generator \<open>kf.split\<close> raises when the loop asks for its first fold, before any member is
  trained.  \<open>self.nets[0]\<close> raises IndexError when there is no member.
\<close>

definition train ::
  "'o backend \<Rightarrow> DynamicsModel \<Rightarrow> tensor \<times> tensor \<Rightarrow> cfg
     \<Rightarrow> error + (DynamicsModel \<times> real option list list \<times> real option list list)" where
  "train be m dataset c =
     (if ens m then
        e_bind (KFold (E m))
          (\<lambda>kf. e_bind (kf_split kf (nrows (fst dataset)))
             (\<lambda>folds. e_bind (train_loop be dataset c (zip (nets m) folds) (0, [], [], []))
                (\<lambda>(rng, ns, acctrain_l, acctest_l).
                   Inr (m\<lparr>nets := ns @ drop (length ns) (nets m),
                          acctrain := Some acctrain_l, acctest := Some acctest_l\<rparr>,
                        acctrain_l, acctest_l))))
      else
        (case nets m of
           [] \<Rightarrow> Inl IndexError
         | n # ns \<Rightarrow>
             e_bind (optimize be 0 n dataset c)
               (\<lambda>(rng, n', train_e, test_e).
                  Inr (m\<lparr>nets := n' # ns, acctrain := Some [train_e], acctest := Some [test_e]\<rparr>,
                       [train_e], [test_e]))))"

section \<open>Concrete inputs\<close>

text \<open>
  Configurations, parameters and batches on which the statements below are evaluated.
  \<open>unit_bounds\<close> is the loss \<open>ProbLoss(1)\<close> as constructed.
\<close>

definition cfg_traj_prob :: cfg where
  "cfg_traj_prob = \<lparr>model_ensemble = False, model_traj = True, model_prob = True,
     training_E = 1, training_hid_width = 2, training_hid_depth = 1,
     optimizer_lr = 1 / 1000, optimizer_batch = 2, optimizer_split = 4 / 5,
     optimizer_epochs = 1, env_state_size = 3, env_action_size = 2, env_param_size = 0\<rparr>"

definition cfg_one_step :: cfg where
  "cfg_one_step = \<lparr>model_ensemble = False, model_traj = False, model_prob = False,
     training_E = 1, training_hid_width = 2, training_hid_depth = 1,
     optimizer_lr = 1 / 1000, optimizer_batch = 2, optimizer_split = 4 / 5,
     optimizer_epochs = 1, env_state_size = 3, env_action_size = 2, env_param_size = 0\<rparr>"

definition zero_params :: "nat \<Rightarrow> nat \<Rightarrow> params" where
  "zero_params i k = ((\<lambda>r c. 0), (\<lambda>r. 0))"

definition unit_bounds :: ProbLoss where
  "unit_bounds = \<lparr>size = 1,
     max_logvar = \<lparr>nrows = 1, ncols = 1, el = (\<lambda>i j. 1)\<rparr>,
     min_logvar = \<lparr>nrows = 1, ncols = 1, el = (\<lambda>i j. - 1)\<rparr>\<rparr>"


text \<open>
  The raw log-variance that the caps with the bounds 1 and -1 send to 0, and a batch of
  four samples whose mean column is the sample number and whose raw log-variance is that
  value.
\<close>

definition raw_unit_var :: real where
  "raw_unit_var = - ln (1 / (1 - exp (- 1)) - exp (- 1))"

definition batch4 :: tensor where
  "batch4 = \<lparr>nrows = 4, ncols = 2, el = (\<lambda>i j. if j = 0 then real i else raw_unit_var)\<rparr>"

definition targets4 :: tensor where
  "targets4 = \<lparr>nrows = 4, ncols = 1, el = (\<lambda>i j. real i)\<rparr>"

definition x_one_step :: tensor where
  "x_one_step = \<lparr>nrows = 1, ncols = 5, el = (\<lambda>i j. 1 + real j)\<rparr>"

text \<open>
  A backend whose optimiser leaves the parameters as they are and whose shuffle is the
  identity, two datasets of zeros, the network and the one-step model that
  \<open>cfg_one_step\<close> and \<open>zero_params\<close> construct, and variants of \<open>cfg_one_step\<close>.
\<close>

definition idle_backend :: "unit backend" where
  "idle_backend = \<lparr>new_optimizer = (\<lambda>fs lr. ()),
     optimizer_step = (\<lambda>opt net inputs targets. (opt, features net)),
     shuffled = (\<lambda>k xs. xs)\<rparr>"

definition zero_data :: "nat \<Rightarrow> tensor \<times> tensor" where
  "zero_data n = (\<lparr>nrows = n, ncols = 5, el = (\<lambda>i j. 0)\<rparr>, \<lparr>nrows = n, ncols = 3, el = (\<lambda>i j. 0)\<rparr>)"

definition data10 :: "tensor \<times> tensor" where
  "data10 = zero_data 10"


definition net_zero :: Net where
  "net_zero = \<lparr>onGPU = False, net_loss_fn = MSELoss, net_n_in = 5, net_n_out = 3, hidden_w = 2,
     features = [Linear 5 2 (\<lambda>r c. 0) (\<lambda>r. 0), ReLU, Linear 2 2 (\<lambda>r c. 0) (\<lambda>r. 0), ReLU,
                 Linear 2 3 (\<lambda>r c. 0) (\<lambda>r. 0)]\<rparr>"

definition model_one_step :: DynamicsModel where
  "model_one_step = \<lparr>ens = False, traj = False, prob = False, E = 1, n_in = 5, n_out = 3,
     loss_fn = MSELoss, nets = [net_zero], acctrain = None, acctest = None\<rparr>"

definition cfg_split_one :: cfg where
  "cfg_split_one = cfg_one_step\<lparr>optimizer_split := 1\<rparr>"



text \<open>The double nearest to one third, and a configuration with it as split fraction.\<close>

definition third :: real where
  "third = 6004799503160661 / 2 ^ 54"

definition cfg_third :: cfg where
  "cfg_third = cfg_one_step\<lparr>optimizer_split := third, optimizer_epochs := 0\<rparr>"



section \<open>Input and output dimensions\<close>

lemma e_bind_Inr_iff: "e_bind m f = Inr y \<longleftrightarrow> (\<exists>v. m = Inr v \<and> f v = Inr y)"
  by (cases m) (simp_all add: e_bind_def)

lemma e_mapM_ok: "(\<And>x. x \<in> set xs \<Longrightarrow> \<exists>y. f x = Inr y) \<Longrightarrow> \<exists>ys. e_mapM f xs = Inr ys"
proof (induction xs)
  case Nil
  show ?case by simp
next
  case (Cons a xs)
  from Cons.prems obtain y where y: "f a = Inr y" by auto
  from Cons obtain ys where "e_mapM f xs = Inr ys" by auto
  with y show ?case by simp
qed

text \<open>
  C4.  Whenever construction succeeds, \<open>n_in\<close> is \<open>state_size + param_size + 1\<close> in
  trajectory mode and \<open>state_size + action_size\<close> in one-step mode, and \<open>n_out\<close> is
  \<open>2 * state_size\<close> when probabilistic and \<open>state_size\<close> otherwise, whatever the
  ensemble, trajectory and probabilistic flags are; and construction does succeed when no
  size is negative.
\<close>

theorem init_dims:
  "(\<forall>m. DynamicsModel_init c w = Inr m \<longrightarrow>
      n_in m = (if model_traj c then env_state_size c + env_param_size c + 1
                else env_state_size c + env_action_size c) \<and>
      n_out m = (if model_prob c then 2 * env_state_size c else env_state_size c)) \<and>
   (0 \<le> env_state_size c \<and> 0 \<le> env_action_size c \<and> 0 \<le> env_param_size c \<and>
    0 \<le> training_hid_width c \<longrightarrow> (\<exists>m. DynamicsModel_init c w = Inr m))"
proof (intro conjI allI impI)
  fix m assume "DynamicsModel_init c w = Inr m"
  then show "n_in m = (if model_traj c then env_state_size c + env_param_size c + 1
                else env_state_size c + env_action_size c)"
    by (auto simp: DynamicsModel_init_def Let_def e_bind_Inr_iff ProbLoss_init_def
             split: if_splits)
next
  fix m assume "DynamicsModel_init c w = Inr m"
  then show "n_out m = (if model_prob c then 2 * env_state_size c else env_state_size c)"
    by (auto simp: DynamicsModel_init_def Let_def e_bind_Inr_iff ProbLoss_init_def
             split: if_splits)
next
  assume nn: "0 \<le> env_state_size c \<and> 0 \<le> env_action_size c \<and> 0 \<le> env_param_size c \<and>
    0 \<le> training_hid_width c"
  define ni where "ni = (if model_traj c then env_state_size c + env_param_size c + 1
                else env_state_size c + env_action_size c)"
  have ni: "0 \<le> ni" using nn by (simp add: ni_def)
  have nets: "\<exists>ns. e_mapM (\<lambda>i. Net_init ni no c lf (w i)) xs = Inr ns"
    if "0 \<le> no" for no lf xs
    using that nn ni by (intro e_mapM_ok) (simp add: Net_init_def Let_def)
  show "\<exists>m. DynamicsModel_init c w = Inr m"
  proof (cases "model_prob c")
    case True
    obtain pl where pl: "ProbLoss_init (env_state_size c) = Inr pl"
      using nn by (simp add: ProbLoss_init_def)
    from nets [of "env_state_size c * 2" "ProbLossFn pl"] nn
    obtain ns where "e_mapM (\<lambda>i. Net_init ni (env_state_size c * 2) c (ProbLossFn pl) (w i))
        [0..<nat (if model_ensemble c then training_E c else 1)] = Inr ns"
      by auto
    with True pl show ?thesis
      unfolding DynamicsModel_init_def Let_def ni_def [symmetric]
      by (simp add: e_bind_def)
  next
    case False
    from nets [of "env_state_size c" MSELoss] nn
    obtain ns where "e_mapM (\<lambda>i. Net_init ni (env_state_size c) c MSELoss (w i))
        [0..<nat (if model_ensemble c then training_E c else 1)] = Inr ns"
      by auto
    with False show ?thesis
      unfolding DynamicsModel_init_def Let_def ni_def [symmetric]
      by (simp add: e_bind_def)
  qed
qed

theorem init_dims_witness:
  "\<exists>m. DynamicsModel_init cfg_traj_prob zero_params = Inr m \<and> n_in m = 4 \<and> n_out m = 6"
  using init_dims [of cfg_traj_prob zero_params] by (auto simp: cfg_traj_prob_def)

section \<open>The shape and the value of a prediction\<close>

lemma upt_1: "[0..<1] = [0]" by simp

text \<open>
  The shape of a prediction in general: the rows of \<open>x\<close>; in trajectory mode the
  smaller of 21 and \<open>n_out\<close> columns, in one-step mode the broadcast of the smaller of 21
  and the columns of \<open>x\<close> with the smaller of 21 and \<open>n_out\<close>.
\<close>

lemma predict_loop_shape:
  "predict_loop ns len x p = Inr q \<Longrightarrow> nrows q = nrows p \<and> ncols q = ncols p"
proof (induction ns arbitrary: p)
  case Nil
  then show ?case by simp
next
  case (Cons n ns)
  from Cons.prems obtain y p' where
    p': "iadd p (tmap (\<lambda>v. v / real len) y) = Inr p'" and q: "predict_loop ns len x p' = Inr q"
    by (auto simp: e_bind_Inr_iff)
  from p' have "nrows p' = nrows p \<and> ncols p' = ncols p"
    by (auto simp: iadd_def split: if_splits)
  with Cons.IH [OF q] show ?case by simp
qed

lemma predict_shape:
  assumes "fst (predict m x) = Inr t"
  shows "nrows t = nrows x"
    and "traj m \<Longrightarrow> ncols t = min 21 (nat (n_out m))"
    and "\<not> traj m \<Longrightarrow> bdim (min 21 (ncols x)) (min 21 (nat (n_out m))) = Some (ncols t)"
proof -
  from assms obtain p where
    p: "predict_loop (nets m) (length (nets m)) x (zeros (nrows x) (nat (n_out m))) = Inr p" and
    t: "(if traj m then Inr (cols_to p 21) else bop (+) (cols_to x 21) (cols_to p 21)) = Inr t"
    by (auto simp: predict_def e_bind_Inr_iff split: if_splits)
  have sp: "nrows p = nrows x" "ncols p = nat (n_out m)"
    using predict_loop_shape [OF p] by (simp_all add: zeros_def)
  show "nrows t = nrows x"
    using t sp by (auto simp: cols_to_def bop_def bdim_def split: if_splits option.splits)
  show "ncols t = min 21 (nat (n_out m))" if "traj m"
    using t sp that by (auto simp: cols_to_def slice_pos_def)
  show "bdim (min 21 (ncols x)) (min 21 (nat (n_out m))) = Some (ncols t)" if "\<not> traj m"
    using t sp that by (auto simp: cols_to_def slice_pos_def bop_def split: option.splits)
qed

text \<open>
  C2.  The claim is that \<open>predict\<close> returns \<open>state_size\<close> columns.  The slices of
  \<open>predict\<close> have the literal width 21 (the method's own note says the hardcoding is to be
  fixed): a probabilistic trajectory model with \<open>state_size = 3\<close> has \<open>n_out = 6\<close>, and
  on a batch of two rows with \<open>n_in = 4\<close> columns its prediction has 6 columns, not 3,
  whatever the weights are.
\<close>

theorem predict_cols_traj_prob:
  "\<exists>m t. DynamicsModel_init cfg_traj_prob w = Inr m \<and>
     fst (predict m (zeros 2 4)) = Inr t \<and> nrows t = 2 \<and> ncols t = 6"
  by (simp add: DynamicsModel_init_def cfg_traj_prob_def ProbLoss_init_def e_bind_def
        Net_init_def Let_def predict_def forward_def zeros_def iadd_def tmap_def cols_to_def
        slice_pos_def upt_1)

text \<open>
  C3.  The claim is that one-step prediction with all-zero network output returns the
  first \<open>state_size\<close> columns of \<open>x\<close>.  With \<open>state_size = 3\<close> and \<open>action_size = 2\<close>
  the input has 5 columns, \<open>x[:, :21]\<close> keeps all 5, the prediction has 3, and their sum
  raises; the only member's output on that input is all zeros.
\<close>

theorem predict_one_step_raises:
  "\<exists>m. DynamicsModel_init cfg_one_step zero_params = Inr m \<and>
     map (\<lambda>n. forward n x_one_step) (nets m) = [Inr (zeros 1 3)] \<and>
     fst (predict m x_one_step) = Inl RuntimeError"
  by (simp add: DynamicsModel_init_def cfg_one_step_def e_bind_def zero_params_def
        Net_init_def Let_def predict_def forward_def zeros_def iadd_def tmap_def cols_to_def
        slice_pos_def upt_1 bop_def bdim_def x_one_step_def)

lemma init_cong:
  assumes "model_ensemble c' = model_ensemble c" "model_traj c' = model_traj c"
    "model_prob c' = model_prob c" "training_E c' = training_E c"
    "training_hid_width c' = training_hid_width c" "training_hid_depth c' = training_hid_depth c"
    "env_state_size c' = env_state_size c" "env_action_size c' = env_action_size c"
    "env_param_size c' = env_param_size c"
  shows "DynamicsModel_init c' w = DynamicsModel_init c w"
  by (simp only: DynamicsModel_init_def Net_init_def assms)

lemma model_one_step_init: "DynamicsModel_init cfg_one_step zero_params = Inr model_one_step"
  by (simp add: model_one_step_def net_zero_def DynamicsModel_init_def cfg_one_step_def
        e_bind_def Net_init_def Let_def zero_params_def upt_1)

lemma init_split_one: "DynamicsModel_init cfg_split_one zero_params = Inr model_one_step"
  using init_cong [of cfg_split_one cfg_one_step zero_params] model_one_step_init
  by (simp add: cfg_split_one_def)





section \<open>The caps on the log-variance\<close>

lemma unit_bounds_init: "ProbLoss_init 1 = Inr unit_bounds"
  by (simp add: ProbLoss_init_def unit_bounds_def)


lemma bidx_idem: "bidx a (bidx a i) = bidx a i"
  by (simp add: bidx_def)



lemma softplus_raw_simps [simp]:
  "nrows (softplus_raw d) = nrows d" "ncols (softplus_raw d) = ncols d"
  "el (softplus_raw d) i j = ln (1 + exp (el d i j))"
  by (simp_all add: softplus_raw_def tmap_def)







section \<open>The value of the probabilistic loss\<close>

lemma e_bind_Inr [simp]: "e_bind (Inr v) f = f v"
  by (simp add: e_bind_def)

lemma bdim_same [simp]: "bdim a a = Some a"
  by (simp add: bdim_def)

lemma bidx_less: "i < n \<Longrightarrow> bidx n i < n"
  by (simp add: bidx_def)

lemma bop_same_shape:
  "nrows a = nrows b \<Longrightarrow> ncols a = ncols b \<Longrightarrow>
   bop f a b = Inr \<lparr>nrows = nrows a, ncols = ncols a,
                     el = (\<lambda>i j. f (el a (bidx (nrows a) i) (bidx (ncols a) j))
                                    (el b (bidx (nrows a) i) (bidx (ncols a) j)))\<rparr>"
  by (simp add: bop_def)

lemma unit_var_cap:
  "- 1 + ln (1 + exp (1 - ln (1 + exp (1 - raw_unit_var)) - (- 1))) = (0::real)"
proof -
  define a :: real where "a = exp (- 1)"
  have a: "0 < a" "a < 1" by (simp_all add: a_def)
  have ea: "exp 1 * a = 1" by (simp add: a_def exp_minus)
  define q where "q = 1 / (1 - a) - a"
  have "1 < 1 / (1 - a)" using a by (simp add: field_simps)
  then have q: "0 < q" unfolding q_def using a by linarith
  have r: "exp (- raw_unit_var) = q"
    using q by (simp add: raw_unit_var_def q_def a_def)
  have "exp (1 - raw_unit_var) = exp 1 * q"
    using r by (simp add: exp_diff exp_minus field_simps)
  also have "\<dots> = exp 1 / (1 - a) - exp 1 * a" by (simp add: q_def algebra_simps)
  finally have s1: "1 + exp (1 - raw_unit_var) = exp 1 / (1 - a)" using ea by simp
  have pos: "0 < exp 1 / (1 - a)" using a by simp
  define L where "L = ln (1 + exp (1 - raw_unit_var))"
  have "exp L = exp 1 / (1 - a)" unfolding L_def s1 by (rule exp_ln [OF pos])
  then have "exp (1 - L) = exp 1 / (exp 1 / (1 - a))" by (simp only: exp_diff)
  also have "\<dots> = 1 - a" by simp
  finally have eL: "exp (1 - L) = 1 - a" .
  have "1 - L - (- 1) = (1 - L) + 1" by simp
  then have "exp (1 - L - (- 1)) = exp (1 - L) * exp 1" by (simp only: exp_add)
  also have "\<dots> = exp 1 - 1" unfolding eL using ea by (simp add: algebra_simps)
  finally have "1 + exp (1 - L - (- 1)) = exp 1" by simp
  then have "ln (1 + exp (1 - L - (- 1))) = 1" by (simp only: ln_exp)
  then show ?thesis unfolding L_def by simp
qed

text \<open>
  C6.  When the capped log-variance has the shape of the mean and its exponential is 1 at
  every entry, and the targets have the shape and the entries of the mean, the loss is
  computed without error and is exactly 0.
\<close>

theorem ProbLoss_zero:
  assumes lv: "capped_logvar pl inputs = Inr lv"
    and shape: "nrows lv = nrows inputs" "ncols lv = ncols (cols_to inputs (size pl))"
    and var1: "\<forall>i<nrows lv. \<forall>j<ncols lv. exp (el lv i j) = 1"
    and tshape: "nrows targets = nrows inputs" "ncols targets = ncols (cols_to inputs (size pl))"
    and tgt: "\<forall>i<nrows targets. \<forall>j<ncols targets. el targets i j = el inputs i j"
  shows "ProbLoss_forward pl inputs targets = Inr 0"
proof -
  define r c where "r = nrows inputs" and "c = ncols (cols_to inputs (size pl))"
  define mean where "mean = cols_to inputs (size pl)"
  define var where "var = tmap exp lv"
  define diff where "diff = \<lparr>nrows = r, ncols = c,
     el = (\<lambda>i j. el mean (bidx r i) (bidx c j) - el targets (bidx r i) (bidx c j))\<rparr>"
  define mid where "mid = \<lparr>nrows = r, ncols = c,
     el = (\<lambda>i j. el diff (bidx r i) (bidx c j) / el var (bidx r i) (bidx c j))\<rparr>"
  have mean_shape: "nrows mean = r" "ncols mean = c"
    by (simp_all add: mean_def r_def c_def cols_to_def)
  have var_shape: "nrows var = r" "ncols var = c"
    using shape by (simp_all add: var_def tmap_def r_def c_def)
  have d: "bop (-) mean targets = Inr diff"
    using mean_shape tshape by (simp add: bop_same_shape diff_def r_def c_def)
  have m: "bop (/) diff var = Inr mid"
    using var_shape by (simp add: bop_same_shape diff_def mid_def)
  have diff0: "el diff i j = 0" if "i < r" "j < c" for i j
  proof -
    have "bidx r i < nrows targets" "bidx c j < ncols targets"
      using that tshape by (simp_all add: bidx_less r_def c_def)
    then have "el targets (bidx r i) (bidx c j) = el inputs (bidx r i) (bidx c j)"
      using tgt by blast
    then show ?thesis by (simp add: diff_def mean_def cols_to_def)
  qed
  have p: "mm diff (t_transpose mid) =
      Inr \<lparr>nrows = r, ncols = r, el = (\<lambda>i j. \<Sum>k<c. el diff i k * el mid j k)\<rparr>"
    by (simp add: mm_def t_transpose_def diff_def mid_def)
  have tr: "trace \<lparr>nrows = r, ncols = r, el = (\<lambda>i j. \<Sum>k<c. el diff i k * el mid j k)\<rparr> = 0"
    by (simp add: trace_def diff0)
  have lg: "t_sum (tmap ln var) = 0"
  proof -
    have "ln (exp (el lv i j)) = 0" if "i < r" "j < c" for i j
    proof -
      have "exp (el lv i j) = 1" using that var1 shape by (simp add: r_def c_def)
      then show ?thesis by (simp only: ln_one)
    qed
    then show ?thesis
      using var_shape by (simp add: t_sum_def tmap_def var_def)
  qed
  show ?thesis
    unfolding ProbLoss_forward_def Let_def
    using lv d m p tr lg by (simp add: mean_def [symmetric] var_def [symmetric])
qed

theorem ProbLoss_zero_witness: "ProbLoss_forward unit_bounds batch4 targets4 = Inr 0"
proof -
  have lv: "capped_logvar unit_bounds batch4 =
      Inr \<lparr>nrows = 4, ncols = 1,
           el = (\<lambda>i j. - 1 + ln (1 + exp (1 - ln (1 + exp (1 - raw_unit_var)) - (- 1))))\<rparr>"
    by (simp add: capped_logvar_def unit_bounds_def batch4_def Let_def bop_def
          bdim_def bidx_def cols_from_def slice_pos_def softplus_raw_def tmap_def)
  have lv0: "capped_logvar unit_bounds batch4 = Inr \<lparr>nrows = 4, ncols = 1, el = (\<lambda>i j. 0)\<rparr>"
    by (simp only: lv unit_var_cap)
  show ?thesis
    by (rule ProbLoss_zero [OF lv0])
       (simp_all add: unit_bounds_def batch4_def targets4_def cols_to_def slice_pos_def)
qed

section \<open>The folds of the ensemble\<close>

lemma length_iter_test_indices [simp]: "length (iter_test_indices sizes cur) = length sizes"
  by (induction sizes arbitrary: cur) simp_all


lemma length_fold_sizes [simp]: "length (fold_sizes k n) = k"
  by (simp add: fold_sizes_def)









lemma fold_sizes_pos: "k \<le> n \<Longrightarrow> 0 < k \<Longrightarrow> sz \<in> set (fold_sizes k n) \<Longrightarrow> 0 < sz"
  by (auto simp: fold_sizes_def div_greater_zero_iff)









section \<open>Hyperparameters\<close>

lemma e_bind_Inl [simp]: "e_bind (Inl e) f = Inl e"
  by (simp add: e_bind_def)

lemma slice_pos_len [simp]: "slice_pos (int n) n = n"
  by (simp add: slice_pos_def)

lemma py_int_of_nat [simp]: "py_int (real n) = int n"
  by (simp add: py_int_def)

lemma py_int_of_int [simp]: "py_int (of_int z) = z"
  by (simp add: py_int_def)

lemma rne_of_int [simp]: "rne (of_int k) = k"
  by (simp add: rne_def)

lemma round_double_exact:
  assumes "x \<noteq> 0" and "\<bar>x\<bar> * 2 powr (52 - \<lfloor>log 2 \<bar>x\<bar>\<rfloor>) = of_int k"
  shows "round_double x = x"
proof -
  let ?e = "\<lfloor>log 2 \<bar>x\<bar>\<rfloor>"
  have "of_int (rne (\<bar>x\<bar> * 2 powr (52 - ?e))) * 2 powr (?e - 52)
      = \<bar>x\<bar> * 2 powr (52 - ?e) * 2 powr (?e - 52)"
    using assms(2) by simp
  also have "\<dots> = \<bar>x\<bar> * (2 powr (52 - ?e) * 2 powr (?e - 52))" by simp
  also have "2 powr (52 - ?e) * 2 powr (?e - 52) = (1::real)"
    by (simp add: powr_add [symmetric])
  finally show ?thesis using assms(1) by (simp add: round_double_def Let_def sgn_real_def abs_real_def split: if_splits)
qed

lemma round_double_of_int:
  assumes "\<bar>z\<bar> < 2 ^ 53"
  shows "round_double (of_int z) = of_int z"
proof (cases "z = 0")
  case True
  then show ?thesis by (simp add: round_double_def)
next
  case False
  define x :: real where "x = \<bar>of_int z\<bar>"
  have x1: "1 \<le> x" using False by (simp add: x_def)
  have x2: "x < 2 ^ 53" using assms unfolding x_def by (metis of_int_abs of_int_less_numeral_power_cancel_iff)
  define e where "e = \<lfloor>log 2 x\<rfloor>"
  have "log 2 x < 53"
    using x1 x2 by (simp add: log_less_iff powr_realpow)
  then have e52: "e \<le> 52" unfolding e_def by linarith
  have "0 \<le> log 2 x" using x1 by simp
  define n where "n = nat (52 - e)"
  have "2 powr (52 - e) = (2::real) ^ n"
    using e52 by (simp add: n_def powr_realpow [symmetric])
  then have "x * 2 powr (52 - e) = of_int (\<bar>z\<bar> * 2 ^ n)"
    by (simp add: x_def)
  then show ?thesis
    using round_double_exact [of "of_int z" "\<bar>z\<bar> * 2 ^ n"] False
    by (simp add: x_def e_def)
qed

lemma float_product_int:
  assumes "split * real n = of_int z" and "\<bar>z\<bar> < 2 ^ 53"
  shows "float_product split n = of_int z"
  using assms round_double_of_int [OF assms(2)] by (simp add: float_product_def)

lemma float_product_one [simp]: "float_product 1 n = real n"
proof (cases "n < 2 ^ 53")
  case True
  then have "\<bar>int n\<bar> < 2 ^ 53" by (simp add: nat_less_iff flip: of_nat_power)
  from float_product_int [of 1 n "int n", OF _ this] show ?thesis by simp
next
  case False
  then show ?thesis by (simp add: float_product_def)
qed

lemma DataLoader_error: "DataLoader xs bs = Inl e \<Longrightarrow> e = ValueError"
  by (auto simp: DataLoader_def split: if_splits)

lemma optimize_unfold:
  "\<not> optimizer_lr c < 0 \<Longrightarrow>
   optimize be rng net dataset c =
     e_bind (DataLoader (list_to [0..<min (nrows (fst dataset)) (nrows (snd dataset))]
                 (py_int (float_product (optimizer_split c)
                    (length [0..<min (nrows (fst dataset)) (nrows (snd dataset))]))))
               (optimizer_batch c))
       (\<lambda>trainLoader.
          e_bind (DataLoader (list_from [0..<min (nrows (fst dataset)) (nrows (snd dataset))]
                    (py_int (float_product (optimizer_split c)
                       (length [0..<min (nrows (fst dataset)) (nrows (snd dataset))]))))
                    (optimizer_batch c))
            (\<lambda>testLoader.
               e_bind (epoch_loop be dataset (optimizer_batch c) trainLoader testLoader
                         [0..<nat (optimizer_epochs c)]
                         (rng, new_optimizer be (features net) (optimizer_lr c), net, [], []))
                 (\<lambda>(rng', opt', net', train_errors, test_errors).
                    Inr (rng', net', train_errors, test_errors))))"
  by (simp only: optimize_def Let_def if_False)

text \<open>
  C7, amended.  With split fraction 1 the test partition is empty and \<open>optimize\<close> never
  reaches an epoch, so nothing is divided by zero; but it does not return either: building
  the shuffling test loader over no samples raises ValueError (as does a negative learning
  rate, a non-positive batch size or an empty training partition before it).
\<close>

theorem optimize_split_one:
  assumes "optimizer_split c = 1"
  shows "optimize be rng net dataset c = Inl ValueError"
proof (cases "optimizer_lr c < 0")
  case True
  then show ?thesis by (simp add: optimize_def Let_def)
next
  case False
  define ds where "ds = [0..<min (nrows (fst dataset)) (nrows (snd dataset))]"
  define k where "k = py_int (float_product (optimizer_split c) (length ds))"
  have "k = int (length ds)" using assms by (simp add: k_def)
  then have test: "DataLoader (list_from ds k) (optimizer_batch c) = Inl ValueError"
    by (simp add: list_from_def DataLoader_def)
  note eq = optimize_unfold [OF False, of be rng net dataset, folded ds_def, folded k_def]
  show ?thesis
  proof (cases "DataLoader (list_to ds k) (optimizer_batch c)")
    case (Inl e)
    then show ?thesis using DataLoader_error [OF Inl] by (simp add: eq e_bind_def)
  next
    case (Inr l)
    then show ?thesis using test by (simp add: eq e_bind_def)
  qed
qed

theorem optimize_split_one_witness:
  "optimizer_split cfg_split_one = 1 \<and>
   optimize idle_backend 0 net_zero data10 cfg_split_one = Inl ValueError"
  using optimize_split_one [of cfg_split_one idle_backend 0 net_zero data10]
  by (simp add: cfg_split_one_def)

text \<open>
  The claim C7 fails as stated: on ten samples with split fraction 1, \<open>train\<close> on the
  one-step model raises ValueError instead of returning per-epoch test errors.
\<close>

lemma split_one_data10:
  "optimize idle_backend 0 net_zero data10 cfg_split_one = Inl ValueError"
  by (simp add: optimize_unfold cfg_split_one_def cfg_one_step_def data10_def zero_data_def list_from_def
        list_to_def DataLoader_def slice_pos_def py_int_def)

theorem train_split_one_raises:
  "DynamicsModel_init cfg_split_one zero_params = Inr model_one_step \<and>
   train idle_backend model_one_step data10 cfg_split_one = Inl ValueError"
  by (simp add: init_split_one train_def model_one_step_def split_one_data10)




text \<open>
  The claim C8 fails as stated: with zero epochs, and with a batch size of 100 on ten
  samples together with the split fraction -1/2, construction succeeds and \<open>train\<close>
  returns its lists of errors; the negative split is taken as a slice bound from the end.
\<close>

lemma forward_net_zero:
  "ncols x = 5 \<Longrightarrow> forward net_zero x = Inr \<lparr>nrows = nrows x, ncols = 3, el = (\<lambda>i j. 0)\<rparr>"
  by (simp add: forward_def net_zero_def tmap_def)

lemma MSELoss_zero:
  "0 < r \<Longrightarrow>
   MSELoss_forward \<lparr>nrows = r, ncols = 3, el = (\<lambda>i j. 0)\<rparr> \<lparr>nrows = r, ncols = 3, el = (\<lambda>i j. 0)\<rparr>
     = Inr (Some 0)"
  by (simp add: MSELoss_forward_def bop_def t_sum_def tmap_def)

lemma collate_zero:
  "collate (zero_data n) b = (\<lparr>nrows = length b, ncols = 5, el = (\<lambda>i j. 0)\<rparr>,
                             \<lparr>nrows = length b, ncols = 3, el = (\<lambda>i j. 0)\<rparr>)"
  by (simp add: collate_def zero_data_def)

lemma net_zero_loss: "net_loss_fn net_zero = MSELoss"
  by (simp add: net_zero_def)

lemma nan_add_zero [simp]: "nan_add e (nan_div (Some 0) d) = e"
  by (cases e) (simp_all add: nan_add_def nan_div_def)

lemma train_pass_zero:
  "[] \<notin> set bs \<Longrightarrow>
   train_pass idle_backend (zero_data n) d bs ((), net_zero, e) = Inr ((), net_zero, e)"
proof (induction bs arbitrary: e)
  case Nil
  show ?case by simp
next
  case (Cons b bs)
  have st: "optimizer_step idle_backend () net_zero x y = ((), features net_zero)" for x y
    by (simp add: idle_backend_def)
  from Cons.prems have b: "0 < length b" and bs: "[] \<notin> set bs" by auto
  show ?case
    by (simp add: collate_zero forward_net_zero net_zero_loss MSELoss_zero [OF b] st
          Cons.IH [OF bs])
qed

lemma test_pass_zero:
  "[] \<notin> set bs \<Longrightarrow> test_pass (zero_data n) d bs net_zero e = Inr e"
proof (induction bs arbitrary: e)
  case Nil
  show ?case by simp
next
  case (Cons b bs)
  from Cons.prems have b: "0 < length b" and bs: "[] \<notin> set bs" by auto
  show ?case
    by (simp add: collate_zero forward_net_zero net_zero_loss MSELoss_zero [OF b]
          Cons.IH [OF bs])
qed

lemma batches_nonempty:
  assumes "0 < n"
  shows "[] \<notin> set (batches (\<lambda>xs. xs) (xs, n))"
proof
  assume "[] \<in> set (batches (\<lambda>xs. xs) (xs, n))"
  then obtain k where k: "k < (length xs + n - 1) div n" and e: "take n (drop (k * n) xs) = []"
    by (auto simp: batches_def loader_len_def)
  from k have "Suc k \<le> (length xs + n - 1) div n" by simp
  then have "Suc k * n \<le> length xs + n - 1"
    using assms by (simp add: less_eq_div_iff_mult_less_eq)
  then have "k * n < length xs" using assms by simp
  with e assms show False by simp
qed

lemma epoch_loop_zero:
  assumes "0 < snd trl" "0 < snd tel"
  shows "epoch_loop idle_backend (zero_data n) bsz trl tel es (rng, (), net_zero, tr, te) =
     Inr (rng + 2 * length es, (), net_zero, tr @ replicate (length es) (Some 0),
          te @ replicate (length es) (Some 0))"
proof (induction es arbitrary: rng tr te)
  case Nil
  show ?case by simp
next
  case (Cons ep es)
  have sh: "shuffled idle_backend r = (\<lambda>xs. xs)" for r
    by (simp add: idle_backend_def)
  have b1: "[] \<notin> set (batches (\<lambda>xs. xs) trl)"
    using batches_nonempty [OF assms(1), of "fst trl"] by simp
  have b2: "[] \<notin> set (batches (\<lambda>xs. xs) tel)"
    using batches_nonempty [OF assms(2), of "fst tel"] by simp
  show ?case
    by (simp add: sh train_pass_zero [OF b1] test_pass_zero [OF b2] Cons.IH
          replicate_app_Cons_same)
qed

lemma optimize_zero:
  assumes "\<not> optimizer_lr c < 0" and "0 < optimizer_batch c"
    and "py_int (float_product (optimizer_split c) (length [0..<n])) = k"
    and "list_to [0..<n] k \<noteq> []" and "list_from [0..<n] k \<noteq> []"
  shows "optimize idle_backend rng net_zero (zero_data n) c =
     Inr (rng + 2 * nat (optimizer_epochs c), net_zero,
          replicate (nat (optimizer_epochs c)) (Some 0),
          replicate (nat (optimizer_epochs c)) (Some 0))"
proof -
  have ds: "[0..<min (nrows (fst (zero_data n))) (nrows (snd (zero_data n)))] = [0..<n]"
    by (simp add: zero_data_def)
  have tr: "DataLoader (list_to [0..<n] k) (optimizer_batch c) =
      Inr (list_to [0..<n] k, nat (optimizer_batch c))"
    using assms by (simp add: DataLoader_def)
  have te: "DataLoader (list_from [0..<n] k) (optimizer_batch c) =
      Inr (list_from [0..<n] k, nat (optimizer_batch c))"
    using assms by (simp add: DataLoader_def)
  have no: "new_optimizer idle_backend fs l = ()" for fs l
    by simp
  have bp: "0 < nat (optimizer_batch c)" using assms(2) by simp
  show ?thesis
    unfolding optimize_unfold [OF assms(1)] ds assms(3) tr te
    using assms(2) by (simp add: epoch_loop_zero)
qed



text \<open>
  The split index follows the rounding of the double product: three times the double
  nearest to one third is \<open>1 - 2\<^sup>-\<^sup>5\<^sup>4\<close>, which rounds to 1, so that of three samples one
  is for training and two are for testing, and \<open>optimize\<close> returns.
\<close>

lemma floor_log2_unit:
  assumes "1 / 2 \<le> x" "x < 1"
  shows "\<lfloor>log 2 x\<rfloor> = - 1"
proof -
  have x: "0 < x" using assms by simp
  have "- 1 \<le> log 2 x"
    using assms x by (simp add: le_log_iff powr_minus)
  moreover have "log 2 x < 0" using assms x by simp
  ultimately show ?thesis by linarith
qed

lemma round_double_third: "round_double (third * 3) = 1"
proof -
  define x :: real where "x = third * 3"
  have xv: "x = 1 - 1 / 2 ^ 54" by (simp add: x_def third_def)
  have x1: "1 / 2 \<le> x" "x < 1" "x \<noteq> 0" "\<bar>x\<bar> = x" "sgn x = 1"
    by (simp_all add: xv)
  have e: "\<lfloor>log 2 \<bar>x\<bar>\<rfloor> = - 1" using floor_log2_unit x1 by simp
  have p: "(2::real) powr 53 = 2 ^ 53" by (simp add: powr_realpow [symmetric])
  have y: "x * 2 powr 53 = 2 ^ 53 - 1 / 2" unfolding p by (simp add: xv)
  have fl: "\<lfloor>(2::real) ^ 53 - 1 / 2\<rfloor> = 2 ^ 53 - 1" by (rule floor_unique) simp_all
  have "rne ((2::real) ^ 53 - 1 / 2) = 2 ^ 53"
    unfolding rne_def Let_def fl by simp
  then have "rne (x * 2 powr 53) = 2 ^ 53" by (simp only: y)
  then have r: "real_of_int (rne (x * 2 powr 53)) = 2 ^ 53" by simp
  have m: "(2::real) powr (- 53) = 1 / 2 ^ 53"
    by (simp only: powr_minus_divide p)
  have e': "\<lfloor>log 2 x\<rfloor> = - 1" using e by (simp only: x1(4))
  have a1: "real_of_int (52 - \<lfloor>log 2 x\<rfloor>) = 53" by (simp only: e') simp
  have a2: "real_of_int (\<lfloor>log 2 x\<rfloor> - 52) = - 53" by (simp only: e') simp
  have "round_double x =
      sgn x * (of_int (rne (\<bar>x\<bar> * 2 powr real_of_int (52 - \<lfloor>log 2 \<bar>x\<bar>\<rfloor>))) *
        2 powr real_of_int (\<lfloor>log 2 \<bar>x\<bar>\<rfloor> - 52))"
    using x1(3) by (simp only: round_double_def Let_def if_False)
  also have "\<dots> = 1 * (2 ^ 53 * (1 / 2 ^ 53))"
    by (simp only: x1(4) x1(5) a1 a2 r m)
  also have "\<dots> = 1" by simp
  finally show ?thesis by (simp only: x_def)
qed

lemma optimize_third:
  "optimize idle_backend 0 net_zero (zero_data 3) cfg_third = Inr (0, net_zero, [], [])"
proof -
  have k: "py_int (float_product (optimizer_split cfg_third) (length [0..<3])) = 1"
    using round_double_third
    by (simp add: cfg_third_def float_product_def py_int_def)
  show ?thesis
    using optimize_zero [of cfg_third 3 1 0, OF _ _ k]
    by (simp add: cfg_third_def cfg_one_step_def list_to_def list_from_def slice_pos_def)
qed


end
